theory Spec2Isabelle
  imports Complex_Main
begin

section \<open>Budget Tracker CLI: a shallow embedding of \<open>budget_tracker.py\<close>\<close>

text \<open>
  Conventions of the model.
  \<^item> Text is \<^typ>\<open>string\<close>. User-supplied text is taken to be ASCII, where one
    \<^typ>\<open>char\<close> is one Python code point; the few non-ASCII literals of the program (the
    em dash of the rules, two emoji) are spelled as their UTF-8 bytes.
  \<^item> The backing file \<open>expenses.csv\<close> is the list of rows that \<open>csv.reader\<close> yields for it,
    each row a list of fields; \<open>None\<close> is "the file does not exist". \<open>csv.writer\<close> followed
    by \<open>csv.reader\<close> is taken to return the fields that were written.
  \<^item> Every operation returns the new file, the output it produced and how it ended:
    it returned, it called \<open>sys.exit\<close>, or an exception escaped.
\<close>

subsection \<open>Python string methods (ASCII)\<close>

definition is_digit :: "char \<Rightarrow> bool" where
  "is_digit c = (48 \<le> (of_char c :: nat) \<and> (of_char c :: nat) \<le> 57)"

definition digit_val :: "char \<Rightarrow> nat" where
  "digit_val c = of_char c - 48"

definition digit_char :: "nat \<Rightarrow> char" where
  "digit_char n = char_of (48 + n mod 10)"

text \<open>\<open>str.isspace\<close> on ASCII: tab, LF, VT, FF, CR, the separators 28..31, and space.\<close>

definition is_space :: "char \<Rightarrow> bool" where
  "is_space c = (let n = (of_char c :: nat) in (9 \<le> n \<and> n \<le> 13) \<or> (28 \<le> n \<and> n \<le> 32))"

definition lower_char :: "char \<Rightarrow> char" where
  "lower_char c = (let n = (of_char c :: nat) in if 65 \<le> n \<and> n \<le> 90 then char_of (n + 32) else c)"

definition py_lower :: "string \<Rightarrow> string" where
  "py_lower s = map lower_char s"

definition py_strip :: "string \<Rightarrow> string" where
  "py_strip s = rev (dropWhile is_space (rev (dropWhile is_space s)))"

definition py_isdigit :: "string \<Rightarrow> bool" where
  "py_isdigit s = (s \<noteq> [] \<and> list_all is_digit s)"

fun startswith :: "string \<Rightarrow> string \<Rightarrow> bool" where
  "startswith s [] = True"
| "startswith [] (p # ps) = False"
| "startswith (c # cs) (p # ps) = (c = p \<and> startswith cs ps)"

text \<open>\<open>str.split()\<close> without arguments: the maximal runs of non-whitespace characters.\<close>

fun split_acc :: "string \<Rightarrow> string \<Rightarrow> string list" where
  "split_acc w [] = (if w = [] then [] else [rev w])"
| "split_acc w (c # cs) =
     (if is_space c then (if w = [] then split_acc [] cs else rev w # split_acc [] cs)
      else split_acc (c # w) cs)"

definition py_split :: "string \<Rightarrow> string list" where
  "py_split s = split_acc [] s"

text \<open>\<open>str(n)\<close> for a natural number and for an integer.\<close>

fun show_nat :: "nat \<Rightarrow> string" where
  "show_nat n = (if n < 10 then [digit_char n] else show_nat (n div 10) @ [digit_char n])"

declare show_nat.simps [simp del]

definition show_int :: "int \<Rightarrow> string" where
  "show_int i = (if i < 0 then CHR ''-'' # show_nat (nat (- i)) else show_nat (nat i))"

text \<open>Format specifications \<open>:N\<close> (left-justify a string) and \<open>:>N\<close> (right-justify).\<close>

definition ljust :: "nat \<Rightarrow> string \<Rightarrow> string" where
  "ljust n s = s @ replicate (n - length s) CHR '' ''"

definition rjust :: "nat \<Rightarrow> string \<Rightarrow> string" where
  "rjust n s = replicate (n - length s) CHR '' '' @ s"

subsection \<open>\<open>int(s)\<close>\<close>

text \<open>
  \<open>int(s)\<close> in base 10: surrounding whitespace is stripped, one sign is allowed, then
  digits, with single underscores between digits. \<open>None\<close> is \<open>ValueError\<close>. (CPython's
  limit of 4300 digits on the conversion is not modelled.)
\<close>

fun int_digits :: "nat \<Rightarrow> string \<Rightarrow> nat option" where
  "int_digits acc [] = Some acc"
| "int_digits acc [c] = (if is_digit c then Some (10 * acc + digit_val c) else None)"
| "int_digits acc (c # d # cs) =
     (if is_digit c then
        (if d = CHR ''_'' then
           (case cs of [] \<Rightarrow> None
            | e # _ \<Rightarrow> if is_digit e then int_digits (10 * acc + digit_val c) cs else None)
         else int_digits (10 * acc + digit_val c) (d # cs))
      else None)"

definition int_unsigned :: "string \<Rightarrow> nat option" where
  "int_unsigned s = (if s = [] then None else int_digits 0 s)"

definition py_int :: "string \<Rightarrow> int option" where
  "py_int s =
     (case py_strip s of
        [] \<Rightarrow> None
      | c # cs \<Rightarrow>
          if c = CHR ''-'' then map_option (\<lambda>n. - int n) (int_unsigned cs)
          else if c = CHR ''+'' then map_option int (int_unsigned cs)
          else map_option int (int_unsigned (c # cs)))"

subsection \<open>\<open>datetime.strptime(s, "%Y-%m-%d")\<close>\<close>

text \<open>
  CPython's \<open>_strptime\<close> turns the format into the regular expression
  \<^verbatim>\<open>(?P<Y>\d\d\d\d)-(?P<m>1[0-2]|0[1-9]|[1-9])-(?P<d>3[0-1]|[1-2]\d|0[1-9]|[1-9]| [1-9])\<close>,
  matches it at the start of the text, and raises \<open>ValueError\<close> when there is no match
  or when the match does not end at the end of the text. Each group is modelled as the
  list of its possible matches, in the order a backtracking matcher tries them, paired
  with the rest of the text; the match found is the first of the whole search.
\<close>

fun re_Y :: "string \<Rightarrow> (nat \<times> string) list" where
  "re_Y (a # b # c # d # rest) =
     (if is_digit a \<and> is_digit b \<and> is_digit c \<and> is_digit d
      then [(1000 * digit_val a + 100 * digit_val b + 10 * digit_val c + digit_val d, rest)]
      else [])"
| "re_Y _ = []"

fun re_lit :: "char \<Rightarrow> string \<Rightarrow> string list" where
  "re_lit c [] = []"
| "re_lit c (x # rest) = (if x = c then [rest] else [])"

text \<open>Two characters \<open>a\<close>, \<open>b\<close> satisfying \<open>P a b\<close>, read as a two-digit number.\<close>

fun re_two :: "(char \<Rightarrow> char \<Rightarrow> bool) \<Rightarrow> string \<Rightarrow> (nat \<times> string) list" where
  "re_two P (a # b # rest) = (if P a b then [(10 * digit_val a + digit_val b, rest)] else [])"
| "re_two P _ = []"

text \<open>One character in \<open>1..9\<close>.\<close>

fun re_one :: "string \<Rightarrow> (nat \<times> string) list" where
  "re_one [] = []"
| "re_one (a # rest) = (if is_digit a \<and> a \<noteq> CHR ''0'' then [(digit_val a, rest)] else [])"

definition re_m :: "string \<Rightarrow> (nat \<times> string) list" where
  "re_m s =
     re_two (\<lambda>a b. a = CHR ''1'' \<and> b \<in> set ''012'') s
     @ re_two (\<lambda>a b. a = CHR ''0'' \<and> is_digit b \<and> b \<noteq> CHR ''0'') s
     @ re_one s"

definition re_d :: "string \<Rightarrow> (nat \<times> string) list" where
  "re_d s =
     re_two (\<lambda>a b. a = CHR ''3'' \<and> b \<in> set ''01'') s
     @ re_two (\<lambda>a b. a \<in> set ''12'' \<and> is_digit b) s
     @ re_two (\<lambda>a b. a = CHR ''0'' \<and> is_digit b \<and> b \<noteq> CHR ''0'') s
     @ re_one s
     @ (case s of a # rest \<Rightarrow> if a = CHR '' '' then re_one rest else [] | [] \<Rightarrow> [])"

definition re_date :: "string \<Rightarrow> ((nat \<times> nat \<times> nat) \<times> string) list" where
  "re_date s =
     concat (map (\<lambda>(y, r1).
       concat (map (\<lambda>r2.
         concat (map (\<lambda>(m, r3).
           concat (map (\<lambda>r4.
             map (\<lambda>(d, r5). ((y, m, d), r5)) (re_d r4))
           (re_lit CHR ''-'' r3)))
         (re_m r2)))
       (re_lit CHR ''-'' r1)))
     (re_Y s))"

text \<open>\<open>datetime.date(y, m, d)\<close> raises \<open>ValueError\<close> outside years 1..9999 and past the
  month's last day.\<close>

definition is_leap :: "nat \<Rightarrow> bool" where
  "is_leap y = (y mod 4 = 0 \<and> (y mod 100 \<noteq> 0 \<or> y mod 400 = 0))"

definition days_in_month :: "nat \<Rightarrow> nat \<Rightarrow> nat" where
  "days_in_month y m =
     (if m = 2 then (if is_leap y then 29 else 28)
      else if m \<in> {4, 6, 9, 11} then 30 else 31)"

definition strptime :: "string \<Rightarrow> (nat \<times> nat \<times> nat) option" where
  "strptime s =
     (case re_date s of
        [] \<Rightarrow> None
      | ((y, m, d), rest) # _ \<Rightarrow>
          if rest \<noteq> [] then None
          else if y < 1 then None
          else if d < 1 \<or> days_in_month y m < d then None
          else Some (y, m, d))"

subsection \<open>Floats\<close>

text \<open>
  A Python \<open>float\<close> is a finite value (kept as the rational number it denotes), negative
  zero, an infinity or NaN. \<open>format_2f\<close> is the format specification \<open>.2f\<close>: for a finite
  value the correctly rounded decimal with two fractional digits (ties to even, the sign
  kept even when the digits are all zero); \<open>inf\<close>, \<open>-inf\<close> and \<open>nan\<close> otherwise.
\<close>

datatype pyfloat = Finite rat | NegZero | PosInf | NegInf | NaN

definition round_half_even :: "rat \<Rightarrow> int" where
  "round_half_even x =
     (let f = \<lfloor>x\<rfloor>; r = x - of_int f
      in if r < 1 / 2 then f else if 1 / 2 < r then f + 1 else if even f then f else f + 1)"

fun format_2f :: "pyfloat \<Rightarrow> string" where
  "format_2f (Finite q) =
     (let n = nat (round_half_even (\<bar>q\<bar> * 100))
      in (if q < 0 then ''-'' else []) @ show_nat (n div 100) @ ''.''
         @ [digit_char (n div 10), digit_char n])"
| "format_2f NegZero = ''-0.00''"
| "format_2f PosInf = ''inf''"
| "format_2f NegInf = ''-inf''"
| "format_2f NaN = ''nan''"

text \<open>
  The arithmetic of floats is a parameter of the model: \<open>float(s)\<close> (\<open>None\<close> is
  \<open>ValueError\<close>), \<open>round(x, 2)\<close>, \<open>x + y\<close>, \<open>sum\<close> over floats, and
  \<open>sorted(items, key=lambda x: -x[1])\<close>.
\<close>

datatype pyval = Str string | PyNone

record pyops =
  float_of_str :: "string \<Rightarrow> pyfloat option"
  round2 :: "pyfloat \<Rightarrow> pyfloat"
  fadd :: "pyfloat \<Rightarrow> pyfloat \<Rightarrow> pyfloat"
  fsum :: "pyfloat list \<Rightarrow> pyfloat"
  sorted_desc :: "(pyval \<times> pyfloat) list \<Rightarrow> (pyval \<times> pyfloat) list"

text \<open>A text has exactly two fractional digits: an optional minus sign, at least one
  digit, a point, two digits.\<close>

definition two_decimals :: "string \<Rightarrow> bool" where
  "two_decimals s =
     (case rev s of
        d2 # d1 # p # ip \<Rightarrow>
          is_digit d2 \<and> is_digit d1 \<and> p = CHR ''.''
          \<and> (let b = (case rev ip of [] \<Rightarrow> [] | c # t \<Rightarrow> if c = CHR ''-'' then t else c # t)
             in b \<noteq> [] \<and> list_all is_digit b)
      | _ \<Rightarrow> False)"

subsection \<open>Results of running an operation\<close>

datatype exn = ValueError | KeyError | TypeError | AttributeError | EOFError

datatype outcome = Returned | Exited nat | Raised exn

datatype out = Print string | Prompt string

type_synonym csv = "string list list"

type_synonym result = "csv option \<times> out list \<times> outcome"

fun and_then :: "'e + 'a \<Rightarrow> ('a \<Rightarrow> 'e + 'b) \<Rightarrow> 'e + 'b" where
  "and_then (Inl e) f = Inl e"
| "and_then (Inr x) f = f x"

text \<open>\<open>for x in xs: print(f(x))\<close>, stopping at the first exception.\<close>

fun print_each :: "('a \<Rightarrow> exn + string) \<Rightarrow> 'a list \<Rightarrow> out list \<times> exn option" where
  "print_each f [] = ([], None)"
| "print_each f (x # xs) =
     (case f x of
        Inl e \<Rightarrow> ([], Some e)
      | Inr l \<Rightarrow> (case print_each f xs of (os, e) \<Rightarrow> (Print l # os, e)))"

subsection \<open>The store\<close>

definition header :: "string list" where
  "header = [''date'', ''description'', ''category'', ''amount'']"

definition ensure_csv :: "csv option \<Rightarrow> csv" where
  "ensure_csv fs = (case fs of None \<Rightarrow> [header] | Some f \<Rightarrow> f)"

text \<open>
  \<open>csv.DictReader\<close>: the first row gives the field names; every later row that is not
  empty becomes a dictionary, here the association list of its items in insertion order.
  A row shorter than the field names has \<open>None\<close> for the missing ones; the surplus of a
  longer row goes under the key \<open>None\<close>, which the program never reads and the model
  leaves out.
\<close>

type_synonym rowdict = "(string \<times> pyval) list"

fun dict_row :: "string list \<Rightarrow> string list \<Rightarrow> rowdict" where
  "dict_row [] vs = []"
| "dict_row (k # ks) [] = (k, PyNone) # dict_row ks []"
| "dict_row (k # ks) (v # vs) = (k, Str v) # dict_row ks vs"

definition read_rows :: "csv option \<Rightarrow> rowdict list" where
  "read_rows fs =
     (case ensure_csv fs of
        [] \<Rightarrow> []
      | names # rs \<Rightarrow> map (dict_row names) (filter (\<lambda>r. r \<noteq> []) rs))"

text \<open>\<open>r[k]\<close>: the last item stored under the key, \<open>KeyError\<close> when there is none.\<close>

definition getitem :: "rowdict \<Rightarrow> string \<Rightarrow> exn + pyval" where
  "getitem r k = (case map_of (rev r) k of None \<Rightarrow> Inl KeyError | Some v \<Rightarrow> Inr v)"

text \<open>\<open>r[k][:n]\<close> and \<open>f"{r[k]:n}"\<close> need a string: \<open>None\<close> raises \<open>TypeError\<close>.\<close>

definition str_item :: "rowdict \<Rightarrow> string \<Rightarrow> exn + string" where
  "str_item r k =
     and_then (getitem r k) (\<lambda>v. case v of Str s \<Rightarrow> Inr s | PyNone \<Rightarrow> Inl TypeError)"

text \<open>\<open>float(r[k])\<close>.\<close>

definition float_item :: "pyops \<Rightarrow> rowdict \<Rightarrow> string \<Rightarrow> exn + pyfloat" where
  "float_item py r k =
     and_then (getitem r k) (\<lambda>v. case v of
        PyNone \<Rightarrow> Inl TypeError
      | Str s \<Rightarrow> (case float_of_str py s of None \<Rightarrow> Inl ValueError | Some x \<Rightarrow> Inr x))"

text \<open>\<open>str(v)\<close> inside an f-string, and the cell \<open>csv.writer\<close> writes for a value.\<close>

definition py_str :: "pyval \<Rightarrow> string" where
  "py_str v = (case v of Str s \<Rightarrow> s | PyNone \<Rightarrow> ''None'')"

definition csv_cell :: "pyval \<Rightarrow> string" where
  "csv_cell v = (case v of Str s \<Rightarrow> s | PyNone \<Rightarrow> [])"

definition em_dash :: string where
  "em_dash = [CHR 0xE2, CHR 0x80, CHR 0x94]"

definition rule :: "nat \<Rightarrow> string" where
  "rule n = concat (replicate n em_dash)"

subsection \<open>Validators\<close>

definition parse_amount :: "pyops \<Rightarrow> string \<Rightarrow> (out list \<times> outcome) + pyfloat" where
  "parse_amount py s =
     (case float_of_str py s of
        Some x \<Rightarrow> Inr (round2 py x)
      | None \<Rightarrow> Inl ([Print '' Amount must be a number. Example: 12.50''], Exited 1))"

definition valid_date :: "string \<Rightarrow> (out list \<times> outcome) + string" where
  "valid_date s =
     (case strptime s of
        Some d \<Rightarrow> Inr s
      | None \<Rightarrow> Inl ([Print '' Date must be in YYYY-MM-DD format, e.g., 2025-09-20.''], Exited 1))"

subsection \<open>Command operations\<close>

definition add_expense :: "csv option \<Rightarrow> string \<Rightarrow> string \<Rightarrow> string \<Rightarrow> pyfloat \<Rightarrow> result" where
  "add_expense fs date description category amount =
     (Some (ensure_csv fs @ [[date, description, py_lower category, format_2f amount]]),
      [Print ('' Added: '' @ date @ '' | '' @ description @ '' | '' @ category @ '' | $''
              @ format_2f amount)],
      Returned)"

text \<open>\<open>rows[-limit:]\<close>, with Python's clipping of the start index.\<close>

definition last_rows :: "int \<Rightarrow> 'a list \<Rightarrow> 'a list" where
  "last_rows limit rows =
     (let n = int (length rows); start = - limit;
          i = (if start < 0 then max (n + start) 0 else min start n)
      in drop (nat i) rows)"

definition list_line :: "rowdict \<Rightarrow> pyfloat \<Rightarrow> exn + string" where
  "list_line r amt =
     and_then (str_item r ''date'') (\<lambda>d.
     and_then (str_item r ''description'') (\<lambda>ds.
     and_then (str_item r ''category'') (\<lambda>c.
       Inr (ljust 10 d @ ''  '' @ ljust 28 (take 28 ds) @ ''  '' @ ljust 14 (take 14 c)
            @ ''  $'' @ rjust 9 (format_2f amt)))))"

fun list_loop :: "pyops \<Rightarrow> rowdict list \<Rightarrow> pyfloat \<Rightarrow> out list \<times> (exn + pyfloat)" where
  "list_loop py [] tot = ([], Inr tot)"
| "list_loop py (r # rows) tot =
     (case float_item py r ''amount'' of
        Inl e \<Rightarrow> ([], Inl e)
      | Inr amt \<Rightarrow>
          (case list_line r amt of
             Inl e \<Rightarrow> ([], Inl e)
           | Inr l \<Rightarrow>
               (case list_loop py rows (fadd py tot amt) of (os, res) \<Rightarrow> (Print l # os, res))))"

definition list_expenses :: "pyops \<Rightarrow> csv option \<Rightarrow> int option \<Rightarrow> result" where
  "list_expenses py fs limit =
     (let f = ensure_csv fs;
          rows = read_rows (Some f);
          rows = (case limit of None \<Rightarrow> rows | Some l \<Rightarrow> if l \<noteq> 0 then last_rows l rows else rows);
          head = [Print (rule 72),
                  Print (ljust 10 ''DATE'' @ ''  '' @ ljust 28 ''DESCRIPTION'' @ ''  ''
                         @ ljust 14 ''CATEGORY'' @ ''  '' @ rjust 10 ''AMOUNT''),
                  Print (rule 72)]
      in case list_loop py rows (Finite 0) of
           (os, Inl e) \<Rightarrow> (Some f, head @ os, Raised e)
         | (os, Inr tot) \<Rightarrow>
             (Some f,
              head @ os @ [Print (rule 72),
                           Print (ljust 56 ''TOTAL'' @ ''  $'' @ rjust 9 (format_2f tot))],
              Returned))"

text \<open>\<open>sums[cat] = sums.get(cat, 0.0) + x\<close> on a dictionary kept in insertion order.\<close>

fun sums_add :: "pyops \<Rightarrow> pyval \<Rightarrow> pyfloat \<Rightarrow> (pyval \<times> pyfloat) list \<Rightarrow> (pyval \<times> pyfloat) list" where
  "sums_add py k x [] = [(k, fadd py (Finite 0) x)]"
| "sums_add py k x ((k', v) # kvs) =
     (if k' = k then (k', fadd py v x) # kvs else (k', v) # sums_add py k x kvs)"

fun sum_categories :: "pyops \<Rightarrow> rowdict list \<Rightarrow> (pyval \<times> pyfloat) list \<Rightarrow> exn + (pyval \<times> pyfloat) list" where
  "sum_categories py [] totals = Inr totals"
| "sum_categories py (r # rows) totals =
     and_then (getitem r ''category'') (\<lambda>cat.
     and_then (float_item py r ''amount'') (\<lambda>x.
       sum_categories py rows (sums_add py cat x totals)))"

definition category_line :: "pyval \<times> pyfloat \<Rightarrow> exn + string" where
  "category_line kv =
     (case fst kv of
        PyNone \<Rightarrow> Inl TypeError
      | Str cat \<Rightarrow> Inr (ljust 14 cat @ ''  $'' @ rjust 9 (format_2f (snd kv))))"

definition category_summary :: "pyops \<Rightarrow> csv option \<Rightarrow> result" where
  "category_summary py fs =
     (let f = ensure_csv fs; rows = read_rows (Some f)
      in case sum_categories py rows [] of
           Inl e \<Rightarrow> (Some f, [], Raised e)
         | Inr totals \<Rightarrow>
             (let head = [Print (rule 40),
                          Print (ljust 14 ''CATEGORY'' @ ''  '' @ rjust 10 ''TOTAL''),
                          Print (rule 40)]
              in case print_each category_line (sorted_desc py totals) of
                   (os, Some e) \<Rightarrow> (Some f, head @ os, Raised e)
                 | (os, None) \<Rightarrow> (Some f, head @ os @ [Print (rule 40)], Returned)))"

text \<open>\<open>[r for r in rows if r["date"].startswith(year_month)]\<close>.\<close>

fun month_rows :: "string \<Rightarrow> rowdict list \<Rightarrow> exn + rowdict list" where
  "month_rows ym [] = Inr []"
| "month_rows ym (r # rows) =
     and_then (getitem r ''date'') (\<lambda>v. case v of
        PyNone \<Rightarrow> Inl AttributeError
      | Str d \<Rightarrow> and_then (month_rows ym rows) (\<lambda>ms. Inr (if startswith d ym then r # ms else ms)))"

text \<open>The floats \<open>float(r["amount"])\<close> of the rows, in order.\<close>

fun amounts :: "pyops \<Rightarrow> rowdict list \<Rightarrow> exn + pyfloat list" where
  "amounts py [] = Inr []"
| "amounts py (r # rows) =
     and_then (float_item py r ''amount'') (\<lambda>x.
     and_then (amounts py rows) (\<lambda>xs. Inr (x # xs)))"

definition monthly_line :: "pyops \<Rightarrow> rowdict \<Rightarrow> exn + string" where
  "monthly_line py r =
     and_then (getitem r ''date'') (\<lambda>d.
     and_then (getitem r ''description'') (\<lambda>ds.
     and_then (getitem r ''category'') (\<lambda>c.
     and_then (float_item py r ''amount'') (\<lambda>x.
       Inr (py_str d @ ''  '' @ py_str ds @ ''  '' @ py_str c @ ''  $'' @ format_2f x)))))"

definition calendar_emoji :: string where
  "calendar_emoji = [CHR 0xF0, CHR 0x9F, CHR 0x93, CHR 0x86]"

definition monthly_summary :: "pyops \<Rightarrow> csv option \<Rightarrow> string \<Rightarrow> result" where
  "monthly_summary py fs year_month =
     (let f = ensure_csv fs
      in case strptime (year_month @ ''-01'') of
           None \<Rightarrow> (Some f, [Print '' Month must be in 'YYYY-MM' format, e.g., 2025-09.''], Exited 1)
         | Some d \<Rightarrow>
             (case month_rows year_month (read_rows (Some f)) of
                Inl e \<Rightarrow> (Some f, [], Raised e)
              | Inr monthly_rows \<Rightarrow>
                  (case amounts py monthly_rows of
                     Inl e \<Rightarrow> (Some f, [], Raised e)
                   | Inr xs \<Rightarrow>
                       (let tot = fsum py xs;
                            head = [Print (calendar_emoji @ '' Monthly Summary for '' @ year_month),
                                    Print (rule 40)]
                        in case print_each (monthly_line py) monthly_rows of
                             (os, Some e) \<Rightarrow> (Some f, head @ os, Raised e)
                           | (os, None) \<Rightarrow>
                               (Some f,
                                head @ os @ [Print (rule 40),
                                             Print (''TOTAL: $'' @ format_2f tot)],
                                Returned)))))"

definition CATEGORIES :: "string list" where
  "CATEGORIES = [''food'', ''transport'', ''rent'', ''utilities'', ''entertainment'',
                 ''health'', ''education'', ''clothes'', ''misc'']"

definition list_categories :: "csv option \<Rightarrow> result" where
  "list_categories fs =
     (fs, Print ''Available categories:'' # map (\<lambda>c. Print ('' - '' @ c)) CATEGORIES, Returned)"

text \<open>The row \<open>[r["date"], r["description"], r["category"], r["amount"]]\<close> handed to
  \<open>writerow\<close>.\<close>

definition row_cells :: "rowdict \<Rightarrow> exn + string list" where
  "row_cells r =
     and_then (getitem r ''date'') (\<lambda>d.
     and_then (getitem r ''description'') (\<lambda>ds.
     and_then (getitem r ''category'') (\<lambda>c.
     and_then (getitem r ''amount'') (\<lambda>a.
       Inr [csv_cell d, csv_cell ds, csv_cell c, csv_cell a]))))"

text \<open>The rewrite loop: rows are written one by one to the truncated file, after \<open>f\<close>;
  an exception leaves the file with what had been written.\<close>

fun write_rows :: "csv \<Rightarrow> rowdict list \<Rightarrow> csv \<times> exn option" where
  "write_rows f [] = (f, None)"
| "write_rows f (r # rows) =
     (case row_cells r of
        Inl e \<Rightarrow> (f, Some e)
      | Inr cells \<Rightarrow> write_rows (f @ [cells]) rows)"

definition deleted_line :: "int \<Rightarrow> rowdict \<Rightarrow> exn + string" where
  "deleted_line index removed =
     and_then (getitem removed ''date'') (\<lambda>d.
     and_then (getitem removed ''description'') (\<lambda>ds.
     and_then (getitem removed ''category'') (\<lambda>c.
     and_then (getitem removed ''amount'') (\<lambda>a.
       Inr ('' Deleted #'' @ show_int index @ '': '' @ py_str d @ '' | '' @ py_str ds
            @ '' | '' @ py_str c @ '' | $'' @ py_str a)))))"

definition delete_expense :: "csv option \<Rightarrow> int \<Rightarrow> result" where
  "delete_expense fs index =
     (let f = ensure_csv fs; rows = read_rows (Some f)
      in if index < 1 \<or> index > int (length rows)
         then (Some f, [Print ('' Invalid index. Use 1..'' @ show_nat (length rows))], Exited 1)
         else
           (let removed = rows ! nat (index - 1);
                rows = take (nat (index - 1)) rows @ drop (nat index) rows
            in case write_rows [header] rows of
                 (f', Some e) \<Rightarrow> (Some f', [], Raised e)
               | (f', None) \<Rightarrow>
                   (case deleted_line index removed of
                      Inl e \<Rightarrow> (Some f', [], Raised e)
                    | Inr l \<Rightarrow> (Some f', [Print l], Returned))))"

subsection \<open>The interactive loop\<close>

text \<open>
  The lines typed by the user are a list; \<open>input\<close> takes the next one and raises
  \<open>EOFError\<close> when there is none. \<open>today\<close> is the date of the run, as
  \<open>datetime.today().strftime("%Y-%m-%d")\<close> renders it. The handler of one command returns
  \<open>None\<close> as its outcome when the loop goes on, and the number of further lines it read.
\<close>

definition unlines :: "string list \<Rightarrow> string" where
  "unlines ls = concat (map (\<lambda>l. l @ [CHR 0x0A]) ls)"

definition help_text :: string where
  "help_text =
     CHR 0x0A # unlines
       [''Commands:'',
        ''  add            Add an expense'',
        ''  list [N]       List all expenses (or last N)'',
        ''  summary        Show total by category'',
        ''  monthly YYYY-MM  Show expenses for a month'',
        ''  categories     Show available categories'',
        ''  delete N       Delete the N-th expense (from list order)'',
        ''  quit           Exit'']"

definition money_emoji :: string where
  "money_emoji = [CHR 0xF0, CHR 0x9F, CHR 0x92, CHR 0xB8]"

type_synonym step = "csv option \<times> out list \<times> outcome option \<times> nat"

text \<open>After a command operation the loop goes on if the operation returned.\<close>

definition after :: "result \<Rightarrow> step" where
  "after r =
     (case r of (fs, os, oc) \<Rightarrow> (fs, os, if oc = Returned then None else Some oc, 0))"

definition interactive_add :: "pyops \<Rightarrow> string \<Rightarrow> csv option \<Rightarrow> string list \<Rightarrow> step" where
  "interactive_add py today fs ls =
     (let p1 = Prompt (''Date (YYYY-MM-DD) ['' @ today @ '']: '');
          p2 = Prompt ''Description: '';
          p3 = Prompt ''Category (or new): '';
          p4 = Prompt ''Amount (e.g., 12.50): ''
      in case ls of
           [] \<Rightarrow> (fs, [p1], Some (Raised EOFError), 0)
         | l1 # ls1 \<Rightarrow>
             (let date = (if py_strip l1 = [] then today else py_strip l1)
              in case strptime date of
                   None \<Rightarrow> (fs, [p1, Print '' Invalid date format.''], None, 1)
                 | Some d \<Rightarrow>
                     (case ls1 of
                        [] \<Rightarrow> (fs, [p1, p2], Some (Raised EOFError), 1)
                      | l2 # ls2 \<Rightarrow>
                          (let desc = py_strip l2
                           in case ls2 of
                                [] \<Rightarrow> (fs, [p1, p2, p3], Some (Raised EOFError), 2)
                              | l3 # ls3 \<Rightarrow>
                                  (let cat = py_lower (py_strip l3)
                                   in case ls3 of
                                        [] \<Rightarrow> (fs, [p1, p2, p3, p4], Some (Raised EOFError), 3)
                                      | l4 # ls4 \<Rightarrow>
                                          (case float_of_str py (py_strip l4) of
                                             None \<Rightarrow>
                                               (fs, [p1, p2, p3, p4, Print '' Amount must be numeric.''],
                                                None, 4)
                                           | Some x \<Rightarrow>
                                               (case add_expense fs date desc cat (round2 py x) of
                                                  (fs', os, oc) \<Rightarrow>
                                                    (fs', [p1, p2, p3, p4] @ os, None, 4))))))))"

definition interactive_cmd :: "pyops \<Rightarrow> string \<Rightarrow> csv option \<Rightarrow> string \<Rightarrow> string list \<Rightarrow> step" where
  "interactive_cmd py today fs cmd ls =
     (if cmd = ''help'' \<or> cmd = ''?'' then (fs, [Print help_text], None, 0)
      else if startswith cmd ''add'' then interactive_add py today fs ls
      else if startswith cmd ''list'' then
        (let parts = py_split cmd
         in if length parts = 2 \<and> py_isdigit (parts ! 1)
            then (case py_int (parts ! 1) of
                    None \<Rightarrow> (fs, [], Some (Raised ValueError), 0)
                  | Some n \<Rightarrow> after (list_expenses py fs (Some n)))
            else after (list_expenses py fs None))
      else if cmd = ''summary'' then after (category_summary py fs)
      else if startswith cmd ''monthly'' then
        (let parts = py_split cmd
         in if length parts \<noteq> 2 then (fs, [Print ''Usage: monthly YYYY-MM''], None, 0)
            else after (monthly_summary py fs (parts ! 1)))
      else if cmd = ''categories'' then after (list_categories fs)
      else if startswith cmd ''delete'' then
        (let parts = py_split cmd
         in if length parts \<noteq> 2 \<or> \<not> py_isdigit (parts ! 1)
            then (fs, [Print ''Usage: delete N''], None, 0)
            else (case py_int (parts ! 1) of
                    None \<Rightarrow> (fs, [], Some (Raised ValueError), 0)
                  | Some n \<Rightarrow> after (delete_expense fs n)))
      else (fs, [Print '' Unknown command. Type 'help' for a list of commands.''], None, 0))"

fun interactive_loop :: "pyops \<Rightarrow> string \<Rightarrow> csv option \<Rightarrow> string list \<Rightarrow> result" where
  "interactive_loop py today fs [] = (fs, [Prompt ''> ''], Raised EOFError)"
| "interactive_loop py today fs (l # ls) =
     (let cmd = py_lower (py_strip l)
      in if cmd = ''quit'' \<or> cmd = ''exit'' then (fs, [Prompt ''> ''], Returned)
         else
           (case interactive_cmd py today fs cmd ls of
              (fs', os, Some oc, k) \<Rightarrow> (fs', Prompt ''> '' # os, oc)
            | (fs', os, None, k) \<Rightarrow>
                (case interactive_loop py today fs' (drop k ls) of
                   (fs'', os', oc) \<Rightarrow> (fs'', Prompt ''> '' # os @ os', oc))))"

definition interactive :: "pyops \<Rightarrow> string \<Rightarrow> csv option \<Rightarrow> string list \<Rightarrow> result" where
  "interactive py today fs stdin =
     (case interactive_loop py today (Some (ensure_csv fs)) stdin of
        (fs', os, oc) \<Rightarrow>
          (fs',
           [Print (money_emoji @ '' Budget Tracker CLI '' @ em_dash @ '' Interactive Mode''),
            Print (''Type 'help' for commands. 'quit' to exit.'' @ [CHR 0x0A])] @ os,
           oc))"

subsection \<open>The single-shot dispatcher\<close>

definition usage :: string where
  \<open>usage = unlines
     [''Usage:'',
      ''  python budget_tracker.py                # interactive mode'',
      ''  python budget_tracker.py add YYYY-MM-DD "desc" category amount'',
      ''  python budget_tracker.py list [N]'',
      ''  python budget_tracker.py summary'',
      ''  python budget_tracker.py monthly YYYY-MM'',
      ''  python budget_tracker.py categories'',
      ''  python budget_tracker.py delete N'']\<close>

text \<open>\<open>args\<close> is \<open>sys.argv[1:]\<close>.\<close>

definition main :: "pyops \<Rightarrow> string \<Rightarrow> csv option \<Rightarrow> string list \<Rightarrow> string list \<Rightarrow> result" where
  "main py today fs args stdin =
     (case args of
        [] \<Rightarrow> interactive py today fs stdin
      | cmd # rest \<Rightarrow>
          if cmd = ''add'' \<and> length args \<ge> 5 then
            (case valid_date (args ! 1) of
               Inl (os, oc) \<Rightarrow> (fs, os, oc)
             | Inr date \<Rightarrow>
                 (let desc = args ! 2; category = py_lower (args ! 3)
                  in case parse_amount py (args ! 4) of
                       Inl (os, oc) \<Rightarrow> (fs, os, oc)
                     | Inr amount \<Rightarrow> add_expense fs date desc category amount))
          else if cmd = ''list'' then
            (if length args = 2 \<and> py_isdigit (args ! 1)
             then (case py_int (args ! 1) of
                     None \<Rightarrow> (fs, [], Raised ValueError)
                   | Some n \<Rightarrow> list_expenses py fs (Some n))
             else list_expenses py fs None)
          else if cmd = ''summary'' then category_summary py fs
          else if cmd = ''monthly'' \<and> length args = 2 then monthly_summary py fs (args ! 1)
          else if cmd = ''categories'' then list_categories fs
          else if cmd = ''delete'' \<and> length args = 2 then
            (case py_int (args ! 1) of
               None \<Rightarrow> (fs, [], Raised ValueError)
             | Some n \<Rightarrow> delete_expense fs n)
          else (fs, [Print usage], Returned))"

subsection \<open>An instance of the float operations, for running examples\<close>

text \<open>
  \<open>decimal_ops\<close> reads a plain signed decimal (or \<open>nan\<close>, \<open>inf\<close>, \<open>infinity\<close>) as the
  number it denotes, and rounds, adds and compares exactly. It coincides with CPython's
  floats on the amounts of the examples below (\<open>10\<close>, \<open>3.5\<close>, \<open>20\<close>, \<open>1200\<close>, \<open>nan\<close>),
  which are binary fractions or special values. The general theorems hold for every
  instance of \<^typ>\<open>pyops\<close>.
\<close>

definition digits_val :: "string \<Rightarrow> int" where
  "digits_val s = foldl (\<lambda>acc c. 10 * acc + int (digit_val c)) 0 s"

definition decimal_value :: "string \<Rightarrow> rat option" where
  "decimal_value s =
     (let ip = takeWhile is_digit s; r = dropWhile is_digit s
      in if ip = [] then None
         else (case r of
                 [] \<Rightarrow> Some (of_int (digits_val ip))
               | c # fp \<Rightarrow>
                   if c = CHR ''.'' \<and> list_all is_digit fp
                   then Some (of_int (digits_val (ip @ fp)) / 10 ^ length fp)
                   else None))"

definition decimal_float :: "string \<Rightarrow> pyfloat option" where
  "decimal_float s =
     (let t = py_lower (py_strip s);
          neg = (t \<noteq> [] \<and> hd t = CHR ''-'');
          body = (if t \<noteq> [] \<and> (hd t = CHR ''-'' \<or> hd t = CHR ''+'') then tl t else t)
      in if body = ''nan'' then Some NaN
         else if body = ''inf'' \<or> body = ''infinity'' then Some (if neg then NegInf else PosInf)
         else (case decimal_value body of
                 None \<Rightarrow> None
               | Some q \<Rightarrow> Some (if neg then (if q = 0 then NegZero else Finite (- q)) else Finite q)))"

fun decimal_round2 :: "pyfloat \<Rightarrow> pyfloat" where
  "decimal_round2 (Finite q) =
     (let n = round_half_even (\<bar>q\<bar> * 100)
      in if q < 0 then (if n = 0 then NegZero else Finite (- (of_int n / 100)))
         else Finite (of_int n / 100))"
| "decimal_round2 x = x"

fun decimal_add :: "pyfloat \<Rightarrow> pyfloat \<Rightarrow> pyfloat" where
  "decimal_add NaN y = NaN"
| "decimal_add x NaN = NaN"
| "decimal_add PosInf NegInf = NaN"
| "decimal_add NegInf PosInf = NaN"
| "decimal_add PosInf y = PosInf"
| "decimal_add x PosInf = PosInf"
| "decimal_add NegInf y = NegInf"
| "decimal_add x NegInf = NegInf"
| "decimal_add NegZero y = y"
| "decimal_add x NegZero = x"
| "decimal_add (Finite a) (Finite b) = Finite (a + b)"

text \<open>\<open>x < y\<close> on floats; every comparison with NaN is false.\<close>

fun decimal_less :: "pyfloat \<Rightarrow> pyfloat \<Rightarrow> bool" where
  "decimal_less NaN y = False"
| "decimal_less x NaN = False"
| "decimal_less PosInf y = False"
| "decimal_less x PosInf = True"
| "decimal_less x NegInf = False"
| "decimal_less NegInf y = True"
| "decimal_less NegZero NegZero = False"
| "decimal_less NegZero (Finite b) = (0 < b)"
| "decimal_less (Finite a) NegZero = (a < 0)"
| "decimal_less (Finite a) (Finite b) = (a < b)"

text \<open>A stable sort by descending total.\<close>

fun insert_desc :: "pyval \<times> pyfloat \<Rightarrow> (pyval \<times> pyfloat) list \<Rightarrow> (pyval \<times> pyfloat) list" where
  "insert_desc x [] = [x]"
| "insert_desc x (y # ys) =
     (if decimal_less (snd y) (snd x) then x # y # ys else y # insert_desc x ys)"

definition decimal_sorted :: "(pyval \<times> pyfloat) list \<Rightarrow> (pyval \<times> pyfloat) list" where
  "decimal_sorted kvs = foldl (\<lambda>acc x. insert_desc x acc) [] kvs"

definition decimal_ops :: pyops where
  "decimal_ops =
     \<lparr> float_of_str = decimal_float,
       round2 = decimal_round2,
       fadd = decimal_add,
       fsum = foldl decimal_add (Finite 0),
       sorted_desc = decimal_sorted \<rparr>"

subsection \<open>Reachable stores\<close>

text \<open>The stores that sequences of \<open>add_expense\<close> and \<open>delete_expense\<close> reach from the
  empty store (no file yet); \<open>reachable_finite\<close> admits only finite amounts.
  \<open>amounts_ok\<close> says that the file has the header row and that every record has four
  cells, the fourth with exactly two fractional digits.\<close>

inductive reachable :: "csv option \<Rightarrow> bool" where
  empty: "reachable None"
| add: "reachable fs \<Longrightarrow> reachable (fst (add_expense fs date description category amount))"
| delete: "reachable fs \<Longrightarrow> reachable (fst (delete_expense fs index))"

definition amounts_ok :: "csv \<Rightarrow> bool" where
  "amounts_ok f =
     (case f of
        [] \<Rightarrow> False
      | names # recs \<Rightarrow>
          names = header \<and> list_all (\<lambda>r. length r = 4 \<and> two_decimals (r ! 3)) recs)"

definition is_finite :: "pyfloat \<Rightarrow> bool" where
  "is_finite x = (case x of Finite q \<Rightarrow> True | NegZero \<Rightarrow> True | _ \<Rightarrow> False)"

inductive reachable_finite :: "csv option \<Rightarrow> bool" where
  empty: "reachable_finite None"
| add: "reachable_finite fs \<Longrightarrow> is_finite amount \<Longrightarrow>
          reachable_finite (fst (add_expense fs date description category amount))"
| delete: "reachable_finite fs \<Longrightarrow> reachable_finite (fst (delete_expense fs index))"

section \<open>Properties\<close>

subsection \<open>Well-formed files\<close>

text \<open>A file the program itself has written starts with the header row, and every
  record has four cells.\<close>

lemma ensure_csv_simps [simp]:
  "ensure_csv None = [header]" "ensure_csv (Some f) = f"
  by (simp_all add: ensure_csv_def)

lemma length4_cases:
  assumes "length r = 4"
  obtains a b c d where "r = [a, b, c, d]"
proof -
  from assms obtain a r1 where r: "r = a # r1" and l1: "length r1 = 3"
    by (cases r) auto
  from l1 obtain b r2 where r1: "r1 = b # r2" and l2: "length r2 = 2"
    by (cases r1) auto
  from l2 obtain c r3 where r2: "r2 = c # r3" and l3: "length r3 = 1"
    by (cases r2) auto
  from l3 obtain d where r3: "r3 = [d]"
    by (cases r3) auto
  show thesis using that r r1 r2 r3 by simp
qed

lemma dict_row_header:
  "dict_row header [a, b, c, d] =
     [(''date'', Str a), (''description'', Str b), (''category'', Str c), (''amount'', Str d)]"
  by (simp add: header_def)

lemma getitem_header:
  "getitem (dict_row header [a, b, c, d]) ''date'' = Inr (Str a)"
  "getitem (dict_row header [a, b, c, d]) ''description'' = Inr (Str b)"
  "getitem (dict_row header [a, b, c, d]) ''category'' = Inr (Str c)"
  "getitem (dict_row header [a, b, c, d]) ''amount'' = Inr (Str d)"
  by (simp_all add: dict_row_header getitem_def)

lemma row_cells_header: "row_cells (dict_row header [a, b, c, d]) = Inr [a, b, c, d]"
  by (simp add: row_cells_def getitem_header csv_cell_def)

lemma row_cells_length4: "length r = 4 \<Longrightarrow> row_cells (dict_row header r) = Inr r"
  by (erule length4_cases) (simp add: row_cells_header)

lemma write_rows_well_formed:
  "list_all (\<lambda>r. length r = 4) rs \<Longrightarrow> write_rows f (map (dict_row header) rs) = (f @ rs, None)"
  by (induction rs arbitrary: f) (simp_all add: row_cells_length4)

lemma filter_nonempty_length4:
  "list_all (\<lambda>r. length r = 4) rs \<Longrightarrow> filter (\<lambda>r. r \<noteq> []) rs = rs"
  by (induction rs) auto

lemma read_rows_well_formed:
  "list_all (\<lambda>r. length r = 4) recs \<Longrightarrow>
     read_rows (Some (header # recs)) = map (dict_row header) recs"
  by (simp add: read_rows_def filter_nonempty_length4)

lemma read_rows_ensure: "read_rows (Some (ensure_csv fs)) = read_rows fs"
  by (simp add: read_rows_def)

lemma deleted_line_header:
  "deleted_line k (dict_row header [a, b, c, d]) =
     Inr ('' Deleted #'' @ show_int k @ '': '' @ a @ '' | '' @ b @ '' | '' @ c @ '' | $'' @ d)"
  by (simp add: deleted_line_def getitem_header py_str_def)

lemma show_nat_1: "show_nat (Suc 0) = ''1''"
  by (simp add: show_nat.simps digit_char_def char_of_eq_iff)

subsection \<open>Deleting by position\<close>

text \<open>
  Claim C3. For every store and every index \<open>k\<close> with \<open>k < 1\<close> or \<open>k > count\<close>, where
  \<open>count\<close> is the number of records, \<open>delete_expense\<close> prints
  \<open>Invalid index. Use 1..count\<close>, exits with status 1, and leaves the records as they
  were: an existing file is returned unchanged, and when there was no file the only
  effect is that of \<open>ensure_csv\<close>, the creation of the header-only file, whose table is
  still empty.
\<close>

theorem delete_out_of_range:
  assumes "k < 1 \<or> int (length (read_rows fs)) < k"
  shows "delete_expense fs k =
           (Some (ensure_csv fs),
            [Print ('' Invalid index. Use 1..'' @ show_nat (length (read_rows fs)))],
            Exited 1)
         \<and> read_rows (Some (ensure_csv fs)) = read_rows fs
         \<and> (\<forall>f. fs = Some f \<longrightarrow> fst (delete_expense fs k) = fs)"
  using assms by (auto simp add: delete_expense_def read_rows_ensure Let_def)

theorem delete_out_of_range_witness:
  "delete_expense (Some [header, [''2025-09-01'', ''Coffee'', ''food'', ''3.50'']]) 2 =
     (Some [header, [''2025-09-01'', ''Coffee'', ''food'', ''3.50'']],
      [Print '' Invalid index. Use 1..1''], Exited 1)
   \<and> delete_expense (Some [header, [''2025-09-01'', ''Coffee'', ''food'', ''3.50'']]) 0 =
     (Some [header, [''2025-09-01'', ''Coffee'', ''food'', ''3.50'']],
      [Print '' Invalid index. Use 1..1''], Exited 1)"
proof -
  let ?f = "[header, [''2025-09-01'', ''Coffee'', ''food'', ''3.50'']]"
  have n: "length (read_rows (Some ?f)) = 1"
    by (simp add: read_rows_def)
  have a: "(2::int) < 1 \<or> int (length (read_rows (Some ?f))) < 2"
    by (simp add: n)
  have b: "(0::int) < 1 \<or> int (length (read_rows (Some ?f))) < 0"
    by simp
  show ?thesis
    using delete_out_of_range [OF a] delete_out_of_range [OF b] by (simp add: n show_nat_1)
qed

lemma delete_expense_in_range:
  assumes f: "ensure_csv fs = header # recs"
    and wf: "list_all (\<lambda>r. length r = 4) recs"
    and k: "1 \<le> k" "k \<le> int (length recs)"
  shows "delete_expense fs k =
           (Some (header # take (nat k - 1) recs @ drop (nat k) recs),
            [Print ('' Deleted #'' @ show_int k @ '': '' @ recs ! (nat k - 1) ! 0 @ '' | ''
                    @ recs ! (nat k - 1) ! 1 @ '' | '' @ recs ! (nat k - 1) ! 2 @ '' | $''
                    @ recs ! (nat k - 1) ! 3)],
            Returned)"
proof -
  let ?i = "nat k - 1"
  have i: "?i < length recs" using k by linarith
  have ni: "nat (k - 1) = ?i" using k by linarith
  have "length (recs ! ?i) = 4"
    using wf i by (simp add: list_all_length)
  then obtain a b c d where r: "recs ! ?i = [a, b, c, d]"
    by (rule length4_cases)
  have rows: "read_rows (Some (header # recs)) = map (dict_row header) recs"
    using wf by (rule read_rows_well_formed)
  have wf': "list_all (\<lambda>r. length r = 4) (take ?i recs @ drop (nat k) recs)"
    using wf by (auto simp add: list_all_iff dest: in_set_takeD in_set_dropD)
  have "write_rows [header] (map (dict_row header) (take ?i recs @ drop (nat k) recs))
          = ([header] @ (take ?i recs @ drop (nat k) recs), None)"
    using wf' by (rule write_rows_well_formed)
  then have w: "write_rows [header]
                  (take ?i (map (dict_row header) recs) @ drop (nat k) (map (dict_row header) recs))
                = (header # take ?i recs @ drop (nat k) recs, None)"
    by (simp add: take_map drop_map)
  have rng: "\<not> (k < 1 \<or> int (length recs) < k)" using k by simp
  have "delete_expense fs k =
          (Some (header # take ?i recs @ drop (nat k) recs),
           [Print ('' Deleted #'' @ show_int k @ '': '' @ a @ '' | '' @ b @ '' | '' @ c
                   @ '' | $'' @ d)],
           Returned)"
    unfolding delete_expense_def Let_def f rows
    using rng i w r
    by (simp add: ni deleted_line_header)
  with r show ?thesis by simp
qed

text \<open>
  Claim C4. On a well-formed store with records \<open>recs\<close> and for \<open>1 \<le> k \<le> length recs\<close>,
  \<open>delete_expense\<close> returns normally and rewrites the file to the header row followed by
  \<open>recs\<close> without its \<open>k\<close>-th record, the others in their order; it prints the four cells
  of the record it removed.
\<close>

theorem delete_removes_kth:
  assumes f: "ensure_csv fs = header # recs"
    and wf: "list_all (\<lambda>r. length r = 4) recs"
    and k: "1 \<le> k" "k \<le> int (length recs)"
  shows "delete_expense fs k =
           (Some (header # take (nat k - 1) recs @ drop (nat k) recs),
            [Print ('' Deleted #'' @ show_int k @ '': '' @ recs ! (nat k - 1) ! 0 @ '' | ''
                    @ recs ! (nat k - 1) ! 1 @ '' | '' @ recs ! (nat k - 1) ! 2 @ '' | $''
                    @ recs ! (nat k - 1) ! 3)],
            Returned)"
  using f wf k by (rule delete_expense_in_range)

theorem delete_removes_kth_witness:
  "delete_expense
     (Some [header,
            [''2025-09-01'', ''Coffee'', ''food'', ''3.50''],
            [''2025-09-15'', ''Rent'', ''rent'', ''1200.00''],
            [''2025-08-01'', ''Book'', ''education'', ''20.00'']]) 1 =
   (Some [header,
          [''2025-09-15'', ''Rent'', ''rent'', ''1200.00''],
          [''2025-08-01'', ''Book'', ''education'', ''20.00'']],
    [Print '' Deleted #1: 2025-09-01 | Coffee | food | $3.50''],
    Returned)"
proof -
  let ?recs = "[[''2025-09-01'', ''Coffee'', ''food'', ''3.50''],
                [''2025-09-15'', ''Rent'', ''rent'', ''1200.00''],
                [''2025-08-01'', ''Book'', ''education'', ''20.00'']]"
  have f: "ensure_csv (Some (header # ?recs)) = header # ?recs" by simp
  have wf: "list_all (\<lambda>r. length r = 4) ?recs" by simp
  have k: "(1::int) \<le> 1" "(1::int) \<le> int (length ?recs)" by simp_all
  have s: "show_int 1 = ''1''" by (simp add: show_int_def show_nat_1)
  show ?thesis
    using delete_removes_kth [OF f wf k] by (simp add: s)
qed

subsection \<open>The single-shot dispatcher\<close>

text \<open>
  Claim C7, as stated, fails: \<open>main\<close> tests \<open>len(args) >= 5\<close>, so \<open>add\<close> followed by five
  arguments is dispatched and appends a record; it does not print the usage banner.
\<close>

theorem main_add_extra_argument:
  "main decimal_ops ''2025-09-20'' None
     [''add'', ''2025-09-01'', ''X'', ''food'', ''10'', ''extra''] [] =
   (Some [header, [''2025-09-01'', ''X'', ''food'', ''10.00'']],
    [Print '' Added: 2025-09-01 | X | food | $10.00''], Returned)
   \<and> main decimal_ops ''2025-09-20'' None
     [''add'', ''2025-09-01'', ''X'', ''food'', ''10'', ''extra''] [] \<noteq>
   (None, [Print usage], Returned)"
  by code_simp

text \<open>
  Claim C7, amended. \<open>add\<close> followed by fewer than four arguments prints the usage banner
  and leaves the store untouched. \<open>add\<close> followed by at least four arguments is
  dispatched on the first four (date, description, category, amount): the date and then
  the amount are validated, a failure of either ends the run with the store untouched,
  and otherwise the record is appended. Arguments after the fourth are ignored.
\<close>

theorem main_add_arity:
  "(length rest < 4 \<longrightarrow>
      main py today fs (''add'' # rest) stdin = (fs, [Print usage], Returned))
   \<and> (4 \<le> length rest \<longrightarrow>
      main py today fs (''add'' # rest) stdin =
        (case valid_date (rest ! 0) of
           Inl (os, oc) \<Rightarrow> (fs, os, oc)
         | Inr date \<Rightarrow>
             (case parse_amount py (rest ! 3) of
                Inl (os, oc) \<Rightarrow> (fs, os, oc)
              | Inr amount \<Rightarrow> add_expense fs date (rest ! 1) (py_lower (rest ! 2)) amount)))
   \<and> (4 \<le> length rest \<longrightarrow>
      main py today fs (''add'' # rest) stdin = main py today fs (''add'' # take 4 rest) stdin)"
proof (intro conjI impI)
  assume "length rest < 4"
  then show "main py today fs (''add'' # rest) stdin = (fs, [Print usage], Returned)"
    by (simp add: main_def)
next
  assume "4 \<le> length rest"
  then show "main py today fs (''add'' # rest) stdin =
        (case valid_date (rest ! 0) of
           Inl (os, oc) \<Rightarrow> (fs, os, oc)
         | Inr date \<Rightarrow>
             (case parse_amount py (rest ! 3) of
                Inl (os, oc) \<Rightarrow> (fs, os, oc)
              | Inr amount \<Rightarrow> add_expense fs date (rest ! 1) (py_lower (rest ! 2)) amount))"
    by (simp add: main_def Let_def split: sum.split)
next
  assume l: "4 \<le> length rest"
  then have "rest ! 0 = take 4 rest ! 0" "rest ! 1 = take 4 rest ! 1"
    "rest ! 2 = take 4 rest ! 2" "rest ! 3 = take 4 rest ! 3"
    by simp_all
  with l show "main py today fs (''add'' # rest) stdin = main py today fs (''add'' # take 4 rest) stdin"
    by (simp add: main_def Let_def split: sum.split)
qed

theorem main_add_arity_witness:
  "main decimal_ops ''2025-09-20'' None [''add'', ''2025-09-01'', ''X'', ''food''] [] =
     (None, [Print usage], Returned)
   \<and> main decimal_ops ''2025-09-20'' None
         [''add'', ''2025-09-01'', ''X'', ''food'', ''10'', ''extra''] [] =
       main decimal_ops ''2025-09-20'' None [''add'', ''2025-09-01'', ''X'', ''food'', ''10''] []"
proof -
  let ?short = "[''2025-09-01'', ''X'', ''food'']"
  let ?long = "[''2025-09-01'', ''X'', ''food'', ''10'', ''extra'']"
  have a: "length ?short < 4" by simp
  have b: "4 \<le> length ?long" by simp
  have t: "take 4 ?long = [''2025-09-01'', ''X'', ''food'', ''10'']" by simp
  from a main_add_arity [of ?short decimal_ops "''2025-09-20''" None "[]"]
  have A: "main decimal_ops ''2025-09-20'' None (''add'' # ?short) [] =
             (None, [Print usage], Returned)"
    by blast
  from b main_add_arity [of ?long decimal_ops "''2025-09-20''" None "[]"]
  have "main decimal_ops ''2025-09-20'' None (''add'' # ?long) [] =
          main decimal_ops ''2025-09-20'' None (''add'' # take 4 ?long) []"
    by blast
  then have B: "main decimal_ops ''2025-09-20'' None (''add'' # ?long) [] =
          main decimal_ops ''2025-09-20'' None [''add'', ''2025-09-01'', ''X'', ''food'', ''10''] []"
    by (simp only: t)
  from A B show ?thesis by (rule conjI)
qed

text \<open>
  Claim C9 fails on the code at \<open>delete abc\<close>: \<open>main\<close> calls \<open>int(args[1])\<close> with no guard,
  the \<open>ValueError\<close> escapes, and nothing has been printed.
\<close>

theorem main_delete_non_integer:
  "main py today fs [''delete'', ''abc''] stdin = (fs, [], Raised ValueError)"
  by (simp add: main_def py_int_def py_strip_def is_space_def int_unsigned_def is_digit_def)

subsection \<open>Two fractional digits\<close>

lemma is_digit_digit_char: "is_digit (digit_char n)"
  by (simp add: is_digit_def digit_char_def)

lemma show_nat_digits: "show_nat n \<noteq> [] \<and> list_all is_digit (show_nat n)"
proof (induction n rule: show_nat.induct)
  case (1 n)
  show ?case
  proof (cases "n < 10")
    case True
    then show ?thesis by (simp add: show_nat.simps [of n] is_digit_digit_char)
  next
    case False
    with 1 show ?thesis by (simp add: show_nat.simps [of n] is_digit_digit_char)
  qed
qed

lemma minus_not_digit: "is_digit c \<Longrightarrow> c \<noteq> CHR ''-''"
  by (auto simp add: is_digit_def)

lemma two_decimals_shape:
  assumes "b \<noteq> []" "list_all is_digit b" "is_digit d1" "is_digit d2"
  shows "two_decimals (b @ ''.'' @ [d1, d2])" "two_decimals (''-'' @ b @ ''.'' @ [d1, d2])"
proof -
  from assms obtain c t where b: "b = c # t" by (cases b) auto
  with assms have c: "c \<noteq> CHR ''-''" by (simp add: minus_not_digit)
  show "two_decimals (b @ ''.'' @ [d1, d2])"
    using assms c by (simp add: two_decimals_def b)
  show "two_decimals (''-'' @ b @ ''.'' @ [d1, d2])"
    using assms by (simp add: two_decimals_def b)
qed

lemma two_decimals_render:
  "two_decimals ((if neg then ''-'' else []) @ show_nat a @ ''.'' @ [digit_char b, digit_char c])"
  using two_decimals_shape [of "show_nat a" "digit_char b" "digit_char c"] show_nat_digits [of a]
  by (simp add: is_digit_digit_char)

lemma two_decimals_format_2f: "is_finite x \<Longrightarrow> two_decimals (format_2f x)"
proof (cases x)
  case (Finite q)
  show ?thesis
    unfolding Finite format_2f.simps Let_def by (rule two_decimals_render)
next
  case NegZero
  then show ?thesis by (simp add: two_decimals_def is_digit_def)
qed (simp_all add: is_finite_def)

lemma amounts_ok_header: "amounts_ok [header]"
  by (simp add: amounts_ok_def)

lemma amounts_ok_ensure: "fs = None \<or> (\<exists>f. fs = Some f \<and> amounts_ok f) \<Longrightarrow> amounts_ok (ensure_csv fs)"
  by (auto simp add: ensure_csv_def amounts_ok_header)

subsection \<open>The monthly summary\<close>

lemma startswith_take: "startswith d p \<longleftrightarrow> take (length p) d = p"
  by (induction d p rule: startswith.induct) auto

lemma month_rows_well_formed:
  "list_all (\<lambda>r. length r = 4) recs \<Longrightarrow>
     month_rows ym (map (dict_row header) recs) =
       Inr (map (dict_row header) (filter (\<lambda>r. take (length ym) (r ! 0) = ym) recs))"
proof (induction recs)
  case Nil
  show ?case by simp
next
  case (Cons r recs)
  then have "length r = 4" by simp
  then obtain a b c d where r: "r = [a, b, c, d]" by (rule length4_cases)
  from Cons show ?case
    by (simp add: r getitem_header startswith_take)
qed

lemma float_item_header:
  "float_item py (dict_row header [a, b, c, d]) ''amount'' =
     (case float_of_str py d of None \<Rightarrow> Inl ValueError | Some x \<Rightarrow> Inr x)"
  by (simp add: float_item_def getitem_header)

lemma amounts_well_formed:
  "list_all2 (\<lambda>r x. length r = 4 \<and> float_of_str py (r ! 3) = Some x) sel xs \<Longrightarrow>
     amounts py (map (dict_row header) sel) = Inr xs"
proof (induction sel xs rule: list_all2_induct)
  case Nil
  show ?case by simp
next
  case (Cons r x sel xs)
  then have "length r = 4" by simp
  then obtain a b c d where r: "r = [a, b, c, d]" by (rule length4_cases)
  from Cons show ?case
    by (simp add: r float_item_header)
qed

lemma monthly_line_header:
  "float_of_str py d = Some x \<Longrightarrow>
     monthly_line py (dict_row header [a, b, c, d]) =
       Inr (a @ ''  '' @ b @ ''  '' @ c @ ''  $'' @ format_2f x)"
  by (simp add: monthly_line_def getitem_header float_item_header py_str_def)

lemma print_each_monthly:
  "list_all2 (\<lambda>r x. length r = 4 \<and> float_of_str py (r ! 3) = Some x) sel xs \<Longrightarrow>
     print_each (monthly_line py) (map (dict_row header) sel) =
       (map2 (\<lambda>r x. Print (r ! 0 @ ''  '' @ r ! 1 @ ''  '' @ r ! 2 @ ''  $'' @ format_2f x)) sel xs,
        None)"
proof (induction sel xs rule: list_all2_induct)
  case Nil
  show ?case by simp
next
  case (Cons r x sel xs)
  then have "length r = 4" by simp
  then obtain a b c d where r: "r = [a, b, c, d]" by (rule length4_cases)
  from Cons show ?case
    by (simp add: r monthly_line_header)
qed

lemma monthly_summary_well_formed:
  assumes f: "ensure_csv fs = header # recs"
    and wf: "list_all (\<lambda>r. length r = 4) recs"
    and ym: "strptime (year_month @ ''-01'') = Some d"
    and am: "list_all2 (\<lambda>r x. float_of_str py (r ! 3) = Some x)
               (filter (\<lambda>r. take (length year_month) (r ! 0) = year_month) recs) xs"
  shows "monthly_summary py fs year_month =
     (Some (header # recs),
      [Print (calendar_emoji @ '' Monthly Summary for '' @ year_month), Print (rule 40)]
      @ map2 (\<lambda>r x. Print (r ! 0 @ ''  '' @ r ! 1 @ ''  '' @ r ! 2 @ ''  $'' @ format_2f x))
          (filter (\<lambda>r. take (length year_month) (r ! 0) = year_month) recs) xs
      @ [Print (rule 40), Print (''TOTAL: $'' @ format_2f (fsum py xs))],
      Returned)"
proof -
  let ?sel = "filter (\<lambda>r. take (length year_month) (r ! 0) = year_month) recs"
  have rows: "read_rows (Some (header # recs)) = map (dict_row header) recs"
    using wf by (rule read_rows_well_formed)
  have m: "month_rows year_month (map (dict_row header) recs) = Inr (map (dict_row header) ?sel)"
    using wf by (rule month_rows_well_formed)
  have "list_all (\<lambda>r. length r = 4) ?sel"
    using wf by (simp add: list_all_iff)
  with am have am': "list_all2 (\<lambda>r x. length r = 4 \<and> float_of_str py (r ! 3) = Some x) ?sel xs"
    by (simp add: list_all2_conv_all_nth list_all_length)
  have a: "amounts py (map (dict_row header) ?sel) = Inr xs"
    using am' by (rule amounts_well_formed)
  have p: "print_each (monthly_line py) (map (dict_row header) ?sel) =
       (map2 (\<lambda>r x. Print (r ! 0 @ ''  '' @ r ! 1 @ ''  '' @ r ! 2 @ ''  $'' @ format_2f x)) ?sel xs,
        None)"
    using am' by (rule print_each_monthly)
  show ?thesis
    by (simp add: monthly_summary_def Let_def f rows ym m a p)
qed

text \<open>
  Claim C5. On a well-formed store and for an argument that passes the month check,
  \<open>monthly_summary\<close> selects exactly the records whose date cell begins with the argument
  as a text (\<open>take (length year_month) date = year_month\<close>: for an argument of the form
  YYYY-MM, its seven characters), prints them in file order, and prints as total the
  rendering of \<open>sum\<close> over their amounts. \<open>xs\<close> are the floats that \<open>float\<close> reads from
  the amount cells of the selected records.
\<close>

theorem monthly_summary_selects_prefix:
  assumes f: "ensure_csv fs = header # recs"
    and wf: "list_all (\<lambda>r. length r = 4) recs"
    and ym: "strptime (year_month @ ''-01'') \<noteq> None"
    and am: "list_all2 (\<lambda>r x. float_of_str py (r ! 3) = Some x)
               (filter (\<lambda>r. take (length year_month) (r ! 0) = year_month) recs) xs"
  shows "monthly_summary py fs year_month =
     (Some (header # recs),
      [Print (calendar_emoji @ '' Monthly Summary for '' @ year_month), Print (rule 40)]
      @ map2 (\<lambda>r x. Print (r ! 0 @ ''  '' @ r ! 1 @ ''  '' @ r ! 2 @ ''  $'' @ format_2f x))
          (filter (\<lambda>r. take (length year_month) (r ! 0) = year_month) recs) xs
      @ [Print (rule 40), Print (''TOTAL: $'' @ format_2f (fsum py xs))],
      Returned)"
proof -
  from ym obtain d where d: "strptime (year_month @ ''-01'') = Some d" by auto
  from f wf d am show ?thesis by (rule monthly_summary_well_formed)
qed

theorem monthly_summary_selects_prefix_witness:
  "monthly_summary decimal_ops
     (Some [header,
            [''2025-09-01'', ''Coffee'', ''food'', ''3.50''],
            [''2025-09-15'', ''Rent'', ''rent'', ''1200.00''],
            [''2025-08-01'', ''Book'', ''education'', ''20.00'']]) ''2025-09'' =
   (Some [header,
          [''2025-09-01'', ''Coffee'', ''food'', ''3.50''],
          [''2025-09-15'', ''Rent'', ''rent'', ''1200.00''],
          [''2025-08-01'', ''Book'', ''education'', ''20.00'']],
    [Print (calendar_emoji @ '' Monthly Summary for 2025-09''),
     Print (rule 40),
     Print ''2025-09-01  Coffee  food  $3.50'',
     Print ''2025-09-15  Rent  rent  $1200.00'',
     Print (rule 40),
     Print ''TOTAL: $1203.50''],
    Returned)"
proof -
  let ?recs = "[[''2025-09-01'', ''Coffee'', ''food'', ''3.50''],
                [''2025-09-15'', ''Rent'', ''rent'', ''1200.00''],
                [''2025-08-01'', ''Book'', ''education'', ''20.00'']]"
  let ?xs = "[Finite (7 / 2), Finite 1200]"
  have f: "ensure_csv (Some (header # ?recs)) = header # ?recs" by simp
  have wf: "list_all (\<lambda>r. length r = 4) ?recs" by simp
  have ym: "strptime (''2025-09'' @ ''-01'') \<noteq> None" by code_simp
  have sel: "filter (\<lambda>r. take (length ''2025-09'') (r ! 0) = ''2025-09'') ?recs =
               [[''2025-09-01'', ''Coffee'', ''food'', ''3.50''],
                [''2025-09-15'', ''Rent'', ''rent'', ''1200.00'']]"
    by simp
  have f1: "float_of_str decimal_ops ''3.50'' = Some (Finite (7 / 2))" by code_simp
  have f2: "float_of_str decimal_ops ''1200.00'' = Some (Finite 1200)" by code_simp
  have am: "list_all2 (\<lambda>r x. float_of_str decimal_ops (r ! 3) = Some x)
              (filter (\<lambda>r. take (length ''2025-09'') (r ! 0) = ''2025-09'') ?recs) ?xs"
    unfolding sel by (simp add: f1 f2)
  have r1: "format_2f (Finite (7 / 2)) = ''3.50''"
    by (simp add: round_half_even_def Let_def show_nat.simps digit_char_def char_of_eq_iff)
  have r2: "format_2f (Finite 1200) = ''1200.00''"
    by (simp add: round_half_even_def Let_def show_nat.simps digit_char_def char_of_eq_iff)
  have "fsum decimal_ops ?xs = Finite (2407 / 2)"
    by (simp add: decimal_ops_def)
  then have t: "format_2f (fsum decimal_ops ?xs) = ''1203.50''"
    by (simp add: round_half_even_def Let_def show_nat.simps digit_char_def char_of_eq_iff)
  have "monthly_summary decimal_ops (Some (header # ?recs)) ''2025-09'' =
     (Some (header # ?recs),
      [Print (calendar_emoji @ '' Monthly Summary for '' @ ''2025-09''), Print (rule 40)]
      @ map2 (\<lambda>r x. Print (r ! 0 @ ''  '' @ r ! 1 @ ''  '' @ r ! 2 @ ''  $'' @ format_2f x))
          [[''2025-09-01'', ''Coffee'', ''food'', ''3.50''],
           [''2025-09-15'', ''Rent'', ''rent'', ''1200.00'']] ?xs
      @ [Print (rule 40), Print (''TOTAL: $'' @ format_2f (fsum decimal_ops ?xs))],
      Returned)"
    using monthly_summary_selects_prefix [OF f wf ym am] by (simp only: sel)
  then show ?thesis
    by (simp only: r1 r2 t zip.simps list.map prod.case list.case nth_Cons_0 nth_Cons_numeral
          nth_Cons_Suc append.simps One_nat_def diff_numeral_simps pred_numeral_simps
          numeral_eq_Suc diff_Suc_Suc BitM.simps arith_simps diff_zero)
qed

subsection \<open>Listing\<close>

text \<open>The limit 0 is taken for no limit by the test \<open>if limit:\<close>, whatever the store;
  \<open>list 0\<close> and \<open>list\<close> on the command line both end in that listing.\<close>

lemma list_expenses_zero: "list_expenses py fs (Some 0) = list_expenses py fs None"
  by (simp add: list_expenses_def)

lemma main_list_zero: "main py today fs [''list'', ''0''] stdin = list_expenses py fs (Some 0)"
  by (simp add: main_def py_isdigit_def is_space_def is_digit_def
        py_int_def py_strip_def int_unsigned_def digit_val_def)

lemma main_list: "main py today fs [''list''] stdin = list_expenses py fs None"
  by (simp add: main_def)

lemma list_line_header:
  "list_line (dict_row header [a, b, c, d]) amt =
     Inr (ljust 10 a @ ''  '' @ ljust 28 (take 28 b) @ ''  '' @ ljust 14 (take 14 c)
          @ ''  $'' @ rjust 9 (format_2f amt))"
  by (simp add: list_line_def str_item_def getitem_header)

lemma list_loop_well_formed:
  "list_all2 (\<lambda>r x. length r = 4 \<and> float_of_str py (r ! 3) = Some x) recs xs \<Longrightarrow>
     list_loop py (map (dict_row header) recs) tot =
       (map2 (\<lambda>r x. Print (ljust 10 (r ! 0) @ ''  '' @ ljust 28 (take 28 (r ! 1)) @ ''  ''
                            @ ljust 14 (take 14 (r ! 2)) @ ''  $'' @ rjust 9 (format_2f x)))
          recs xs,
        Inr (foldl (fadd py) tot xs))"
proof (induction recs xs arbitrary: tot rule: list_all2_induct)
  case Nil
  show ?case by simp
next
  case (Cons r x recs xs)
  then have "length r = 4" by simp
  then obtain a b c d where r: "r = [a, b, c, d]" by (rule length4_cases)
  from Cons show ?case
    by (simp add: r float_item_header list_line_header)
qed

lemma list_expenses_well_formed:
  assumes f: "ensure_csv fs = header # recs"
    and wf: "list_all (\<lambda>r. length r = 4) recs"
    and am: "list_all2 (\<lambda>r x. float_of_str py (r ! 3) = Some x) recs xs"
  shows "list_expenses py fs None =
     (Some (header # recs),
      [Print (rule 72),
       Print (ljust 10 ''DATE'' @ ''  '' @ ljust 28 ''DESCRIPTION'' @ ''  ''
              @ ljust 14 ''CATEGORY'' @ ''  '' @ rjust 10 ''AMOUNT''),
       Print (rule 72)]
      @ map2 (\<lambda>r x. Print (ljust 10 (r ! 0) @ ''  '' @ ljust 28 (take 28 (r ! 1)) @ ''  ''
                           @ ljust 14 (take 14 (r ! 2)) @ ''  $'' @ rjust 9 (format_2f x)))
          recs xs
      @ [Print (rule 72),
         Print (ljust 56 ''TOTAL'' @ ''  $'' @ rjust 9 (format_2f (foldl (fadd py) (Finite 0) xs)))],
      Returned)"
proof -
  have rows: "read_rows (Some (header # recs)) = map (dict_row header) recs"
    using wf by (rule read_rows_well_formed)
  from wf am have "list_all2 (\<lambda>r x. length r = 4 \<and> float_of_str py (r ! 3) = Some x) recs xs"
    by (simp add: list_all2_conv_all_nth list_all_length)
  then have l: "list_loop py (map (dict_row header) recs) (Finite 0) =
       (map2 (\<lambda>r x. Print (ljust 10 (r ! 0) @ ''  '' @ ljust 28 (take 28 (r ! 1)) @ ''  ''
                            @ ljust 14 (take 14 (r ! 2)) @ ''  $'' @ rjust 9 (format_2f x)))
          recs xs,
        Inr (foldl (fadd py) (Finite 0) xs))"
    by (rule list_loop_well_formed)
  show ?thesis
    by (simp add: list_expenses_def Let_def f rows l)
qed

text \<open>
  Claim C10. On a well-formed store with records \<open>recs\<close>, whose amount cells \<open>float\<close>
  reads as \<open>xs\<close>, \<open>list_expenses\<close> with the limit 0 prints the three header lines, then
  one line for every record of \<open>recs\<close>, in file order (not the last zero records), then
  the rule and the total of all amounts, and returns with the store unchanged. This is
  the output of \<open>list_expenses\<close> without a limit, and of \<open>list 0\<close> and \<open>list\<close> on the
  command line.
\<close>

theorem list_limit_zero:
  assumes f: "ensure_csv fs = header # recs"
    and wf: "list_all (\<lambda>r. length r = 4) recs"
    and am: "list_all2 (\<lambda>r x. float_of_str py (r ! 3) = Some x) recs xs"
  shows "list_expenses py fs (Some 0) =
     (Some (header # recs),
      [Print (rule 72),
       Print (ljust 10 ''DATE'' @ ''  '' @ ljust 28 ''DESCRIPTION'' @ ''  ''
              @ ljust 14 ''CATEGORY'' @ ''  '' @ rjust 10 ''AMOUNT''),
       Print (rule 72)]
      @ map2 (\<lambda>r x. Print (ljust 10 (r ! 0) @ ''  '' @ ljust 28 (take 28 (r ! 1)) @ ''  ''
                           @ ljust 14 (take 14 (r ! 2)) @ ''  $'' @ rjust 9 (format_2f x)))
          recs xs
      @ [Print (rule 72),
         Print (ljust 56 ''TOTAL'' @ ''  $'' @ rjust 9 (format_2f (foldl (fadd py) (Finite 0) xs)))],
      Returned)
   \<and> list_expenses py fs (Some 0) = list_expenses py fs None
   \<and> main py today fs [''list'', ''0''] stdin = list_expenses py fs (Some 0)
   \<and> main py today fs [''list''] stdin = list_expenses py fs (Some 0)"
  using list_expenses_well_formed [OF f wf am]
  by (simp only: list_expenses_zero main_list_zero main_list simp_thms)

theorem list_limit_zero_witness:
  "list_expenses decimal_ops
     (Some [header,
            [''2025-09-01'', ''Coffee'', ''food'', ''3.50''],
            [''2025-09-15'', ''Rent'', ''rent'', ''1200.00'']]) (Some 0) =
   (Some [header,
          [''2025-09-01'', ''Coffee'', ''food'', ''3.50''],
          [''2025-09-15'', ''Rent'', ''rent'', ''1200.00'']],
    [Print (rule 72),
     Print ''DATE        DESCRIPTION                   CATEGORY            AMOUNT'',
     Print (rule 72),
     Print ''2025-09-01  Coffee                        food            $     3.50'',
     Print ''2025-09-15  Rent                          rent            $  1200.00'',
     Print (rule 72),
     Print ''TOTAL                                                     $  1203.50''],
    Returned)"
proof -
  let ?recs = "[[''2025-09-01'', ''Coffee'', ''food'', ''3.50''],
                [''2025-09-15'', ''Rent'', ''rent'', ''1200.00'']]"
  let ?xs = "[Finite (7 / 2), Finite 1200]"
  have f: "ensure_csv (Some (header # ?recs)) = header # ?recs" by simp
  have wf: "list_all (\<lambda>r. length r = 4) ?recs" by simp
  have f1: "float_of_str decimal_ops ''3.50'' = Some (Finite (7 / 2))" by code_simp
  have f2: "float_of_str decimal_ops ''1200.00'' = Some (Finite 1200)" by code_simp
  have am: "list_all2 (\<lambda>r x. float_of_str decimal_ops (r ! 3) = Some x) ?recs ?xs"
    by (simp add: f1 f2)
  have r1: "format_2f (Finite (7 / 2)) = ''3.50''"
    by (simp add: round_half_even_def Let_def show_nat.simps digit_char_def char_of_eq_iff)
  have r2: "format_2f (Finite 1200) = ''1200.00''"
    by (simp add: round_half_even_def Let_def show_nat.simps digit_char_def char_of_eq_iff)
  have "foldl (fadd decimal_ops) (Finite 0) ?xs = Finite (2407 / 2)"
    by (simp add: decimal_ops_def)
  then have t: "format_2f (foldl (fadd decimal_ops) (Finite 0) ?xs) = ''1203.50''"
    by (simp add: round_half_even_def Let_def show_nat.simps digit_char_def char_of_eq_iff)
  have h: "ljust 10 ''DATE'' @ ''  '' @ ljust 28 ''DESCRIPTION'' @ ''  ''
              @ ljust 14 ''CATEGORY'' @ ''  '' @ rjust 10 ''AMOUNT'' =
           ''DATE        DESCRIPTION                   CATEGORY            AMOUNT''"
    by code_simp
  have l1: "ljust 10 ''2025-09-01'' @ ''  '' @ ljust 28 (take 28 ''Coffee'') @ ''  ''
              @ ljust 14 (take 14 ''food'') @ ''  $'' @ rjust 9 ''3.50'' =
            ''2025-09-01  Coffee                        food            $     3.50''"
    by code_simp
  have l2: "ljust 10 ''2025-09-15'' @ ''  '' @ ljust 28 (take 28 ''Rent'') @ ''  ''
              @ ljust 14 (take 14 ''rent'') @ ''  $'' @ rjust 9 ''1200.00'' =
            ''2025-09-15  Rent                          rent            $  1200.00''"
    by code_simp
  have l3: "ljust 56 ''TOTAL'' @ ''  $'' @ rjust 9 ''1203.50'' =
            ''TOTAL                                                     $  1203.50''"
    by code_simp
  have "list_expenses decimal_ops (Some (header # ?recs)) (Some 0) =
     (Some (header # ?recs),
      [Print (rule 72),
       Print (ljust 10 ''DATE'' @ ''  '' @ ljust 28 ''DESCRIPTION'' @ ''  ''
              @ ljust 14 ''CATEGORY'' @ ''  '' @ rjust 10 ''AMOUNT''),
       Print (rule 72)]
      @ map2 (\<lambda>r x. Print (ljust 10 (r ! 0) @ ''  '' @ ljust 28 (take 28 (r ! 1)) @ ''  ''
                           @ ljust 14 (take 14 (r ! 2)) @ ''  $'' @ rjust 9 (format_2f x)))
          ?recs ?xs
      @ [Print (rule 72),
         Print (ljust 56 ''TOTAL'' @ ''  $''
                @ rjust 9 (format_2f (foldl (fadd decimal_ops) (Finite 0) ?xs)))],
      Returned)"
    using list_limit_zero [OF f wf am] by (rule conjunct1)
  also have "\<dots> =
     (Some (header # ?recs),
      [Print (rule 72),
       Print ''DATE        DESCRIPTION                   CATEGORY            AMOUNT'',
       Print (rule 72),
       Print ''2025-09-01  Coffee                        food            $     3.50'',
       Print ''2025-09-15  Rent                          rent            $  1200.00'',
       Print (rule 72),
       Print ''TOTAL                                                     $  1203.50''],
      Returned)"
    unfolding t h
    apply (simp only: zip.simps list.map prod.case list.case nth_Cons_0 nth_Cons_Suc
          r1 r2 One_nat_def numeral_2_eq_2 numeral_3_eq_3)
    apply (simp only: l1 l2 l3)
    apply (simp only: append.simps)
    done
  finally show ?thesis .
qed

subsection \<open>Stores reached with finite amounts\<close>

lemma delete_expense_well_formed:
  assumes f: "ensure_csv fs = header # recs"
    and wf: "list_all (\<lambda>r. length r = 4) recs"
    and k: "1 \<le> k" "k \<le> int (length recs)"
  shows "fst (delete_expense fs k) = Some (header # take (nat k - 1) recs @ drop (nat k) recs)"
  using delete_expense_in_range [OF f wf k] by simp

lemma amounts_ok_Cons:
  "amounts_ok f \<longleftrightarrow>
     (\<exists>recs. f = header # recs \<and> list_all (\<lambda>r. length r = 4 \<and> two_decimals (r ! 3)) recs)"
  by (cases f) (auto simp add: amounts_ok_def)

lemma add_expense_amounts_ok:
  assumes "amounts_ok (ensure_csv fs)" "is_finite amount"
  shows "amounts_ok (ensure_csv (fst (add_expense fs date description category amount)))"
  using assms by (auto simp add: amounts_ok_Cons add_expense_def two_decimals_format_2f)

lemma delete_expense_amounts_ok:
  assumes ok: "amounts_ok (ensure_csv fs)"
  shows "amounts_ok (ensure_csv (fst (delete_expense fs k)))"
proof -
  from ok obtain recs where f: "ensure_csv fs = header # recs"
    and all: "list_all (\<lambda>r. length r = 4 \<and> two_decimals (r ! 3)) recs"
    by (auto simp add: amounts_ok_Cons)
  from all have wf: "list_all (\<lambda>r. length r = 4) recs"
    by (simp add: list_all_iff)
  have n: "length (read_rows (Some (header # recs))) = length recs"
    using wf by (simp add: read_rows_well_formed)
  show ?thesis
  proof (cases "k < 1 \<or> int (length recs) < k")
    case True
    then have "fst (delete_expense fs k) = Some (ensure_csv fs)"
      by (simp add: delete_expense_def Let_def f n)
    with ok show ?thesis by simp
  next
    case False
    then have "fst (delete_expense fs k) = Some (header # take (nat k - 1) recs @ drop (nat k) recs)"
      using delete_expense_well_formed [OF f wf] by simp
    moreover have "list_all (\<lambda>r. length r = 4 \<and> two_decimals (r ! 3))
                     (take (nat k - 1) recs @ drop (nat k) recs)"
      using all by (auto simp add: list_all_iff dest: in_set_takeD in_set_dropD)
    ultimately show ?thesis by (simp add: amounts_ok_Cons)
  qed
qed

lemma reachable_finite_amounts_ok: "reachable_finite fs \<Longrightarrow> amounts_ok (ensure_csv fs)"
proof (induction rule: reachable_finite.induct)
  case empty
  show ?case by (simp add: amounts_ok_header)
next
  case (add fs amount date description category)
  then show ?case by (simp add: add_expense_amounts_ok)
next
  case (delete fs index)
  then show ?case by (simp add: delete_expense_amounts_ok)
qed

lemma add_expense_read_back:
  assumes f: "ensure_csv fs = header # recs"
    and wf: "list_all (\<lambda>r. length r = 4) recs"
  shows "read_rows (fst (add_expense fs date description category amount)) =
           map (dict_row header) recs
           @ [[(''date'', Str date), (''description'', Str description),
               (''category'', Str (py_lower category)), (''amount'', Str (format_2f amount))]]"
proof -
  have "list_all (\<lambda>r. length r = 4) (recs @ [[date, description, py_lower category, format_2f amount]])"
    using wf by simp
  then have "read_rows (Some (header # recs @ [[date, description, py_lower category, format_2f amount]]))
      = map (dict_row header) (recs @ [[date, description, py_lower category, format_2f amount]])"
    by (rule read_rows_well_formed)
  then show ?thesis
    by (simp add: add_expense_def f dict_row_header)
qed

subsection \<open>Where the code departs from the claims\<close>

text \<open>The part of the interactive loop that does keep going: a date that \<open>strptime\<close>
  rejects aborts \<open>add\<close> after one line, with the store untouched and no outcome.\<close>

lemma interactive_add_bad_date:
  "strptime (if py_strip l = [] then today else py_strip l) = None \<Longrightarrow>
     interactive_add py today fs (l # ls) =
       (fs, [Prompt (''Date (YYYY-MM-DD) ['' @ today @ '']: ''), Print '' Invalid date format.''],
        None, 1)"
  by (simp add: interactive_add_def Let_def)

lemma interactive_delete_out_of_range:
  "k < 1 \<or> int (length (read_rows fs)) < k \<Longrightarrow>
     after (delete_expense fs k) =
       (Some (ensure_csv fs),
        [Print ('' Invalid index. Use 1..'' @ show_nat (length (read_rows fs)))],
        Some (Exited 1), 0)"
  by (auto simp add: after_def delete_expense_def read_rows_ensure Let_def)

text \<open>Dates of the form YYYY-MM-DD are validated against the calendar.\<close>

lemma valid_date_examples:
  "valid_date ''2025-09-20'' = Inr ''2025-09-20''"
  "valid_date ''2024-02-29'' = Inr ''2024-02-29''"
  "valid_date ''2025-02-30'' =
     Inl ([Print '' Date must be in YYYY-MM-DD format, e.g., 2025-09-20.''], Exited 1)"
  "valid_date ''2025-13-01'' =
     Inl ([Print '' Date must be in YYYY-MM-DD format, e.g., 2025-09-20.''], Exited 1)"
  by code_simp+

text \<open>
  Claim C1 fails on the code. In interactive mode a bad date in \<open>add\<close> only aborts the
  command, but \<open>delete\<close> with an index out of range and \<open>monthly\<close> with a malformed month
  call \<open>delete_expense\<close> and \<open>monthly_summary\<close>, which call \<open>sys.exit(1)\<close>: the process
  ends and the lines typed after the command are never read.
\<close>

theorem interactive_bad_value_exits:
  "interactive py today (Some [header]) [''delete 5'', ''categories'', ''quit''] =
     (Some [header],
      [Print (money_emoji @ '' Budget Tracker CLI '' @ em_dash @ '' Interactive Mode''),
       Print (''Type 'help' for commands. 'quit' to exit.'' @ [CHR 0x0A]),
       Prompt ''> '',
       Print '' Invalid index. Use 1..0''],
      Exited 1)
   \<and> interactive py today (Some [header]) [''monthly 2025-13'', ''categories'', ''quit''] =
     (Some [header],
      [Print (money_emoji @ '' Budget Tracker CLI '' @ em_dash @ '' Interactive Mode''),
       Print (''Type 'help' for commands. 'quit' to exit.'' @ [CHR 0x0A]),
       Prompt ''> '',
       Print '' Month must be in 'YYYY-MM' format, e.g., 2025-09.''],
      Exited 1)"
  by code_simp

text \<open>
  Claim C2 fails on the code: \<open>strptime\<close> also accepts a month or a day without the
  leading zero, and a day written as a space and a digit, so \<open>valid_date\<close> accepts texts
  that are not of the form YYYY-MM-DD.
\<close>

theorem valid_date_unpadded:
  "valid_date ''2025-9-5'' = Inr ''2025-9-5'' \<and> valid_date ''2025-09- 5'' = Inr ''2025-09- 5''"
  by code_simp

text \<open>
  Claim C6 fails on the code for the amount \<open>nan\<close>, which \<open>float\<close> accepts: the record
  read back after \<open>add\<close> has the amount cell \<open>nan\<close>, not a text with two fractional
  digits. (For finite amounts the round trip holds: \<open>add_expense_read_back\<close> and
  \<open>two_decimals_format_2f\<close>.)
\<close>

theorem add_nan_roundtrip:
  "main decimal_ops ''2025-09-20'' None [''add'', ''2025-09-01'', ''X'', ''food'', ''nan''] [] =
     (Some [header, [''2025-09-01'', ''X'', ''food'', ''nan'']],
      [Print '' Added: 2025-09-01 | X | food | $nan''], Returned)
   \<and> read_rows (fst (add_expense None ''2025-09-01'' ''X'' ''food'' NaN)) =
     [[(''date'', Str ''2025-09-01''), (''description'', Str ''X''), (''category'', Str ''food''),
       (''amount'', Str ''nan'')]]
   \<and> \<not> two_decimals ''nan''"
  by code_simp

text \<open>
  Claim C8 fails on the code: one \<open>add\<close> with the amount \<open>nan\<close> reaches a store whose
  record has the amount cell \<open>nan\<close>. (With finite amounts only, every reachable store
  satisfies \<open>amounts_ok\<close>: \<open>reachable_finite_amounts_ok\<close>.)
\<close>

theorem reachable_nan_amount:
  "reachable (Some [header, [''2025-09-01'', ''X'', ''food'', ''nan'']])
   \<and> \<not> two_decimals ([''2025-09-01'', ''X'', ''food'', ''nan''] ! 3)"
proof
  have "reachable (fst (add_expense None ''2025-09-01'' ''X'' ''food'' NaN))"
    by (rule reachable.add) (rule reachable.empty)
  moreover have "fst (add_expense None ''2025-09-01'' ''X'' ''food'' NaN) =
      Some [header, [''2025-09-01'', ''X'', ''food'', ''nan'']]"
    by code_simp
  ultimately show "reachable (Some [header, [''2025-09-01'', ''X'', ''food'', ''nan'']])"
    by simp
  show "\<not> two_decimals ([''2025-09-01'', ''X'', ''food'', ''nan''] ! 3)"
    by code_simp
qed

end
